theory Spec2Isabelle
  imports Complex_Main
begin

section \<open>Errors and the dictionaries of a component\<close>

text \<open>
  An exception is a value of type \<open>error\<close>. \<open>KeyError\<close> carries the name that was
  looked up and \<open>AssertionError\<close> the message of the \<open>assert\<close> statement (empty
  when the statement has none); \<open>ZeroDivisionError\<close> is raised by the division of a
  Python \<open>float\<close> by zero.
\<close>

datatype error = KeyError string | AssertionError string | ZeroDivisionError

text \<open>
  The options, the inputs and the outputs of a component are dictionaries from names to
  values. Reading or writing a name that was never declared raises \<open>KeyError\<close>;
  \<open>declare_item\<close> (the framework's \<open>options.declare\<close>, \<open>add_input\<close> and
  \<open>add_output\<close>) is the only way a name enters a dictionary.
\<close>

type_synonym 'v dict = "string \<rightharpoonup> 'v"

definition declare_item :: "'v dict \<Rightarrow> string \<Rightarrow> 'v \<Rightarrow> 'v dict" where
  "declare_item d name val = d(name \<mapsto> val)"

definition getitem :: "'v dict \<Rightarrow> string \<Rightarrow> error + 'v" where
  "getitem d name = (case d name of None \<Rightarrow> Inl (KeyError name) | Some v \<Rightarrow> Inr v)"

definition setitem :: "'v dict \<Rightarrow> string \<Rightarrow> 'v \<Rightarrow> error + 'v dict" where
  "setitem d name v = (case d name of None \<Rightarrow> Inl (KeyError name) | Some _ \<Rightarrow> Inr (d(name \<mapsto> v)))"

text \<open>Sequencing of statements that may raise: the first exception ends the run.\<close>

definition bind_err :: "error + 'a \<Rightarrow> ('a \<Rightarrow> error + 'b) \<Rightarrow> error + 'b" where
  "bind_err m f = (case m of Inl e \<Rightarrow> Inl e | Inr x \<Rightarrow> f x)"

text \<open>\<open>assert c, msg\<close>\<close>

definition assert :: "bool \<Rightarrow> string \<Rightarrow> error + unit" where
  "assert c msg = (if c then Inr () else Inl (AssertionError msg))"

text \<open>
  A component is built by \<open>initialize\<close>, which declares the options with their
  defaults, followed by the assignment of the keyword arguments of the constructor, one
  \<open>setitem\<close> each.
\<close>

fun update :: "'v dict \<Rightarrow> (string \<times> 'v) list \<Rightarrow> error + 'v dict" where
  "update d [] = Inr d"
| "update d ((name, v) # kwargs) = bind_err (setitem d name v) (\<lambda>d'. update d' kwargs)"

section \<open>Double-precision floats\<close>

text \<open>
  The heat components and the battery compute with IEEE 754 binary64 values (Python
  \<open>float\<close>, \<open>numpy.float64\<close>). A \<open>double\<close> is a finite value, one of the two zeros
  (\<open>Finite 0\<close> is \<open>+0.0\<close>, \<open>NegZero\<close> is \<open>-0.0\<close>), an infinity or \<open>NaN\<close>. Every
  operation computes the exact real result and rounds it to the nearest double, ties to
  the even significand; a result of magnitude \<open>2 ^ 1024\<close> or more after rounding
  overflows to an infinity, one that rounds to zero keeps its sign.

  \<open>Finite x\<close> is a double when \<open>is_double\<close> holds. The operations are defined on
  every \<open>Finite x\<close>; what is proved for all of them holds for the doubles.
\<close>

datatype double = Finite real | NegZero | PInf | NInf | NaN

definition pow2 :: "int \<Rightarrow> real" where
  "pow2 k = (if 0 \<le> k then 2 ^ nat k else 1 / 2 ^ nat (- k))"

text \<open>The nearest integer, ties to even.\<close>

definition round_even :: "real \<Rightarrow> int" where
  "round_even x =
     (let f = \<lfloor>x\<rfloor>; d = x - of_int f
      in if d < 1 / 2 then f else if 1 / 2 < d then f + 1 else if even f then f else f + 1)"

text \<open>
  The exponent of the binade of \<open>x \<ge> 0\<close>: \<open>2 ^ e \<le> x < 2 ^ (e + 1)\<close>, and \<open>-1022\<close>
  throughout the subnormal range. Doubles of that binade are \<open>2 ^ (e - 52)\<close> apart.
\<close>

definition binade :: "real \<Rightarrow> int" where
  "binade x = (if x < pow2 (- 1022) then - 1022 else \<lfloor>log 2 x\<rfloor>)"

definition rnd :: "real \<Rightarrow> real" where
  "rnd x = (let q = pow2 (binade x - 52) in of_int (round_even (x / q)) * q)"

text \<open>The double of sign \<open>s\<close> (true when negative) nearest to the magnitude \<open>m \<ge> 0\<close>.\<close>

definition round_to :: "bool \<Rightarrow> real \<Rightarrow> double" where
  "round_to s m =
     (let y = rnd m
      in if pow2 1024 \<le> y then (if s then NInf else PInf)
         else if y = 0 then (if s then NegZero else Finite 0)
         else Finite (if s then - y else y))"

fun sign :: "double \<Rightarrow> bool" where
  "sign (Finite x) = (x < 0)"
| "sign NegZero = True"
| "sign PInf = False"
| "sign NInf = True"
| "sign NaN = False"

fun valof :: "double \<Rightarrow> real" where
  "valof (Finite x) = x"
| "valof _ = 0"

fun is_zero :: "double \<Rightarrow> bool" where
  "is_zero (Finite x) = (x = 0)"
| "is_zero NegZero = True"
| "is_zero _ = False"

fun is_inf :: "double \<Rightarrow> bool" where
  "is_inf PInf = True"
| "is_inf NInf = True"
| "is_inf _ = False"


definition is_double :: "double \<Rightarrow> bool" where
  "is_double a =
     (case a of Finite x \<Rightarrow> rnd \<bar>x\<bar> = \<bar>x\<bar> \<and> \<bar>x\<bar> < pow2 1024 | _ \<Rightarrow> True)"

definition signed_inf :: "bool \<Rightarrow> double" where
  "signed_inf s = (if s then NInf else PInf)"

definition signed_zero :: "bool \<Rightarrow> double" where
  "signed_zero s = (if s then NegZero else Finite 0)"

text \<open>\<open>-a\<close>\<close>

fun dneg :: "double \<Rightarrow> double" where
  "dneg (Finite x) = (if x = 0 then NegZero else Finite (- x))"
| "dneg NegZero = Finite 0"
| "dneg PInf = NInf"
| "dneg NInf = PInf"
| "dneg NaN = NaN"

text \<open>\<open>a * b\<close>\<close>

definition dmul :: "double \<Rightarrow> double \<Rightarrow> double" where
  "dmul a b =
     (if a = NaN \<or> b = NaN then NaN
      else if is_inf a \<or> is_inf b
        then (if is_zero a \<or> is_zero b then NaN else signed_inf (sign a \<noteq> sign b))
      else round_to (sign a \<noteq> sign b) (\<bar>valof a\<bar> * \<bar>valof b\<bar>))"

text \<open>\<open>a / b\<close> on numpy values: a zero divisor gives an infinity or \<open>NaN\<close>, never an exception.\<close>

definition ddiv :: "double \<Rightarrow> double \<Rightarrow> double" where
  "ddiv a b =
     (if a = NaN \<or> b = NaN then NaN
      else if is_inf a then (if is_inf b then NaN else signed_inf (sign a \<noteq> sign b))
      else if is_inf b then signed_zero (sign a \<noteq> sign b)
      else if is_zero b then (if is_zero a then NaN else signed_inf (sign a \<noteq> sign b))
      else round_to (sign a \<noteq> sign b) (\<bar>valof a\<bar> / \<bar>valof b\<bar>))"

text \<open>\<open>a + b\<close> and \<open>a - b\<close>; an exact sum of zero is \<open>-0.0\<close> only when both terms are negative.\<close>

definition dadd :: "double \<Rightarrow> double \<Rightarrow> double" where
  "dadd a b =
     (if a = NaN \<or> b = NaN then NaN
      else if is_inf a then (if is_inf b \<and> sign a \<noteq> sign b then NaN else a)
      else if is_inf b then b
      else let z = valof a + valof b
           in if z = 0 then signed_zero (sign a \<and> sign b) else round_to (z < 0) \<bar>z\<bar>)"

definition dsub :: "double \<Rightarrow> double \<Rightarrow> double" where
  "dsub a b = dadd a (dneg b)"



text \<open>\<open>np.ceil\<close>\<close>

fun dceil :: "double \<Rightarrow> double" where
  "dceil (Finite x) = (if \<lceil>x\<rceil> = 0 then signed_zero (x < 0) else Finite (of_int \<lceil>x\<rceil>))"
| "dceil a = a"

text \<open>A decimal literal of the program denotes the nearest double.\<close>

definition dlit :: "real \<Rightarrow> double" where
  "dlit x = round_to (x < 0) \<bar>x\<bar>"



section \<open>HeatConduction\<close>





section \<open>HeatConvective\<close>







section \<open>HeatGeneration\<close>





section \<open>FrictionCoefficient\<close>

text \<open>
  Every run of this component ends at a lookup of its options, before any arithmetic
  (theorem \<open>FrictionCoefficient_compute_raises\<close> below), so its values are kept as the
  real numbers they stand for.
\<close>

type_synonym vec = "real dict"

definition FrictionCoefficient_initialize :: vec where
  "FrictionCoefficient_initialize =
     declare_item (declare_item (declare_item (declare_item (declare_item (declare_item Map.empty
       ''SteadyStateFrictionCoefficient'' 1)
       ''MultiplicationFactorSpeed'' 1)
       ''MultiplicationFactorTempertature'' 1)
       ''ParametricFactorSpeed'' 1)
       ''ParametricFactorTempertature'' 1)
       ''OriginalTemperature'' 1"

text \<open>The constructor: \<open>initialize\<close>, then the keyword arguments.\<close>

definition FrictionCoefficient_init :: "(string \<times> real) list \<Rightarrow> error + vec" where
  "FrictionCoefficient_init kwargs = update FrictionCoefficient_initialize kwargs"

definition FrictionCoefficient_setup_inputs :: vec where
  "FrictionCoefficient_setup_inputs =
     declare_item (declare_item Map.empty ''SurfaceVelocity'' 1) ''Temperature'' 1"

definition FrictionCoefficient_setup_outputs :: vec where
  "FrictionCoefficient_setup_outputs = declare_item Map.empty ''FrictionCoefficient'' 0.45"

definition FrictionCoefficient_compute :: "vec \<Rightarrow> vec \<Rightarrow> vec \<Rightarrow> error + vec" where
  "FrictionCoefficient_compute options inputs outputs =
     bind_err (getitem options ''SteadyStateFrictionCoefficient'') (\<lambda>mu_d0.
     bind_err (getitem options ''MultiplicationFactorSpeed'') (\<lambda>n_v.
     bind_err (getitem options ''MultiplicationFactorFrictionTempertature'') (\<lambda>n_t.
     bind_err (getitem options ''ParametricFactorSpeed'') (\<lambda>m_v.
     bind_err (getitem options ''ParametricFactorFrictionTempertature'') (\<lambda>m_t.
     bind_err (getitem options ''OriginalTemperature'') (\<lambda>t_o.
     bind_err (getitem inputs ''SurfaceVelocity'') (\<lambda>v_curr.
     bind_err (getitem inputs ''Temperature'') (\<lambda>t_curr.
     let velocity_factor = 1 + n_v * exp (- (m_v * v_curr));
         temperature_factor = 1 + n_t * exp (- (m_t * (t_curr - t_o)));
         mu_curr = mu_d0 * velocity_factor * temperature_factor
     in setitem outputs ''FrictionCoefficient'' mu_curr))))))))"

section \<open>Battery\<close>

text \<open>
  The battery component belongs to the older interface of the framework: the parameters
  and the unknowns are vectors with fixed names, all declared in \<open>__init__\<close>, so they
  are records. The vector of residuals is never read or written and is left out.
\<close>

record params =
  des_time :: double
  time_of_flight :: double
  des_power :: double
  des_current :: double
  q_l :: double
  e_full :: double
  e_nom :: double
  e_exp :: double
  q_n :: double
  t_exp :: double
  t_nom :: double
  r :: double
  battery_cross_section_area :: double
  cell_mass :: double
  cell_height :: double
  cell_diameter :: double

record unknowns =
  n_cells :: double
  output_voltage :: double
  battery_mass :: double
  battery_volume :: double
  battery_cost :: double
  battery_length :: double

definition Battery_init_params :: params where
  "Battery_init_params =
     \<lparr>des_time = Finite 1.0, time_of_flight = Finite 1.0, des_power = Finite 7.0,
      des_current = Finite 1.0, q_l = dlit 0.1, e_full = dlit 1.4, e_nom = dlit 1.2,
      e_exp = dlit 1.27, q_n = Finite 3.5, t_exp = Finite 1.0, t_nom = dlit 4.3,
      r = dlit 0.0046, battery_cross_section_area = Finite 15000.0, cell_mass = Finite 170.0,
      cell_height = Finite 61.0, cell_diameter = Finite 33.0\<rparr>"

definition Battery_init_unknowns :: unknowns where
  "Battery_init_unknowns =
     \<lparr>n_cells = Finite 1.0, output_voltage = Finite 1000.0, battery_mass = Finite 1.0,
      battery_volume = Finite 1.0, battery_cost = Finite 1.0, battery_length = Finite 1.0\<rparr>"

text \<open>
  What \<open>params[name]\<close> is depends on the framework, which is not part of the sources. If
  it is an element of the framework's numpy vector, a \<open>numpy.float64\<close>, a division by
  zero gives an infinity or \<open>NaN\<close>; if it is a plain Python \<open>float\<close>, the division
  raises \<open>ZeroDivisionError\<close>. The flag \<open>numpy_scalars\<close> selects the reading. It only
  matters for the two divisions of lines 198 and 199, whose operands all come from
  \<open>params\<close>: every later division has a numpy operand (the value of the spline, a result
  of \<open>np.ceil\<close>, the entry of \<open>unknowns\<close> written at line 228) or a non-zero constant
  as divisor.
\<close>

definition pdiv :: "bool \<Rightarrow> double \<Rightarrow> double \<Rightarrow> error + double" where
  "pdiv numpy_scalars a b =
     (if \<not> numpy_scalars \<and> is_zero b then Inl ZeroDivisionError else Inr (ddiv a b))"

definition calculate_total_discharge :: "double \<Rightarrow> double \<Rightarrow> double" where
  "calculate_total_discharge time current = dmul time current"

text \<open>Every assertion of \<open>_check_rep\<close> is a comment: the body is its docstring alone.\<close>

definition check_rep :: "params \<Rightarrow> unknowns \<Rightarrow> error + unit" where
  "check_rep params unknowns = Inr ()"

text \<open>
  The discharge table \<open>18650.csv\<close> is not part of the sources, and the spline fit and
  the quadrature belong to a numerical library. \<open>solve_nonlinear\<close> therefore takes as
  parameters the fitted curve \<open>func\<close> (voltage against discharge depth) and the
  quadrature \<open>quad\<close>, which returns the value of the integral and an error estimate;
  both are taken to return a double on every argument.
\<close>

definition solve_nonlinear ::
  "bool \<Rightarrow> (double \<Rightarrow> double) \<Rightarrow>
   ((double \<Rightarrow> double) \<Rightarrow> double \<Rightarrow> double \<Rightarrow> double \<times> double) \<Rightarrow>
   params \<Rightarrow> unknowns \<Rightarrow> error + unknowns" where
  "solve_nonlinear numpy_scalars func quad params unknowns =
     bind_err (check_rep params unknowns) (\<lambda>_.
     let cap_discharge =
           calculate_total_discharge (time_of_flight params) (des_current params)
     in bind_err (pdiv numpy_scalars cap_discharge
                    (dmul (q_n params) (dsub (Finite 1) (q_l params)))) (\<lambda>n_parallel.
     bind_err (pdiv numpy_scalars (des_current params) n_parallel) (\<lambda>single_bat_current.
     let single_bat_discharge =
           calculate_total_discharge (des_time params) single_bat_current;
         v_batt = func (dmul single_bat_discharge (Finite 1000));
         p_bat = dmul v_batt single_bat_current;
         energy_cap =
           ddiv (fst (quad func (Finite 0) (dmul single_bat_discharge (Finite 1000))))
             (Finite 1000);
         n_cells0 = ddiv (des_power params) p_bat;
         n_cells1 = dceil n_cells0;
         n_parallel1 = dceil n_parallel;
         n_series = dceil (ddiv n_cells1 n_parallel1);
         unknowns = unknowns\<lparr>n_cells := n_cells1\<rparr>;
         unknowns = unknowns\<lparr>battery_mass := ddiv (dmul energy_cap n_cells1) (Finite 265)\<rparr>;
         unknowns = unknowns\<lparr>battery_volume :=
           ddiv (dmul (ddiv (dmul energy_cap n_cells1) (Finite 730)) (Finite 1000))
             (dlit 0.9069)\<rparr>;
         unknowns = unknowns\<lparr>output_voltage := dmul n_series (e_nom params)\<rparr>;
         unknowns = unknowns\<lparr>battery_cost := dmul n_cells1 (dlit 12.95)\<rparr>;
         unknowns = unknowns\<lparr>battery_length :=
           ddiv (battery_volume unknowns) (battery_cross_section_area params)\<rparr>
     in bind_err (check_rep params unknowns) (\<lambda>_. Inr unknowns))))"

section \<open>Properties\<close>

lemma bind_err_Inr [simp]: "bind_err (Inr x) f = f x"
  by (simp add: bind_err_def)

lemma bind_err_Inl [simp]: "bind_err (Inl e) f = Inl e"
  by (simp add: bind_err_def)

lemma getitem_Some [simp]: "d name = Some v \<Longrightarrow> getitem d name = Inr v"
  by (simp add: getitem_def)

lemma getitem_None [simp]: "d name = None \<Longrightarrow> getitem d name = Inl (KeyError name)"
  by (simp add: getitem_def)

lemma setitem_Some [simp]: "d name = Some w \<Longrightarrow> setitem d name v = Inr (d(name \<mapsto> v))"
  by (simp add: setitem_def)

lemma setitem_None [simp]: "d name = None \<Longrightarrow> setitem d name v = Inl (KeyError name)"
  by (simp add: setitem_def)

lemma assert_True [simp]: "c \<Longrightarrow> assert c msg = Inr ()"
  by (simp add: assert_def)

lemma assert_False [simp]: "\<not> c \<Longrightarrow> assert c msg = Inl (AssertionError msg)"
  by (simp add: assert_def)

subsection \<open>Rounding\<close>

lemma pow2_powr: "pow2 k = 2 powr (real_of_int k)"
proof (cases "0 \<le> k")
  case True
  then have "real_of_int k = real (nat k)" by simp
  then have "2 powr (real_of_int k) = 2 powr (real (nat k))" by (rule arg_cong)
  also have "\<dots> = (2::real) ^ nat k" by (rule powr_realpow) simp
  also have "\<dots> = pow2 k" using True unfolding pow2_def by (rule if_P [symmetric])
  finally show ?thesis by (rule sym)
next
  case False
  then have "real_of_int k = - real (nat (- k))" by simp
  then have "2 powr (real_of_int k) = 2 powr (- real (nat (- k)))" by (rule arg_cong)
  also have "\<dots> = inverse (2 powr (real (nat (- k))))" by (rule powr_minus)
  also have "2 powr (real (nat (- k))) = (2::real) ^ nat (- k)" by (rule powr_realpow) simp
  also have "inverse ((2::real) ^ nat (- k)) = 1 / 2 ^ nat (- k)" by (rule inverse_eq_divide)
  also have "\<dots> = pow2 k" using False unfolding pow2_def by (rule if_not_P [symmetric])
  finally show ?thesis by (rule sym)
qed


lemma pow2_pos [simp]: "0 < pow2 k"
  unfolding pow2_powr by simp

lemma pow2_nonneg [simp]: "0 \<le> pow2 k"
  using pow2_pos [of k] by (rule less_imp_le)

lemma pow2_neq0 [simp]: "pow2 k \<noteq> 0"
  by (metis less_irrefl pow2_pos)

lemma pow2_add: "pow2 (a + b) = pow2 a * pow2 b"
  unfolding pow2_powr by (simp add: powr_add)

lemma pow2_mono: "a \<le> b \<Longrightarrow> pow2 a \<le> pow2 b"
  unfolding pow2_powr by simp

lemma pow2_less: "a < b \<Longrightarrow> pow2 a < pow2 b"
  unfolding pow2_powr by simp

lemma binade_eqI:
  assumes "pow2 e \<le> x" and "x < pow2 (e + 1)" and "- 1022 \<le> e"
  shows "binade x = e"
proof -
  have x: "0 < x" using assms(1) pow2_pos [of e] by linarith
  have "pow2 (- 1022) \<le> x" using pow2_mono [OF assms(3)] assms(1) by linarith
  then have b: "binade x = \<lfloor>log 2 x\<rfloor>" unfolding binade_def by simp
  have "2 powr (real_of_int e) \<le> x" using assms(1) unfolding pow2_powr .
  then have l: "real_of_int e \<le> log 2 x" using x by (simp add: le_log_iff)
  have "x < 2 powr (real_of_int (e + 1))" using assms(2) unfolding pow2_powr .
  then have u: "log 2 x < real_of_int (e + 1)" using x by (simp add: log_less_iff)
  from l u have "\<lfloor>log 2 x\<rfloor> = e" by (simp add: floor_eq_iff)
  with b show ?thesis by simp
qed

lemma round_even_cases: "round_even x = \<lfloor>x\<rfloor> \<or> round_even x = \<lfloor>x\<rfloor> + 1"
  unfolding round_even_def Let_def by simp


lemma round_even_of_int: "round_even (of_int n) = n"
  unfolding round_even_def Let_def by simp


lemma rnd_0: "rnd 0 = 0"
  unfolding rnd_def Let_def round_even_def by simp

lemma rnd_eval:
  assumes "pow2 e \<le> x" and "x < pow2 (e + 1)" and "- 1022 \<le> e"
  shows "rnd x = of_int (round_even (x / pow2 (e - 52))) * pow2 (e - 52)"
  unfolding rnd_def Let_def binade_eqI [OF assms] ..

lemma rnd_subnormal:
  assumes "x < pow2 (- 1022)"
  shows "rnd x = of_int (round_even (x / pow2 (- 1074))) * pow2 (- 1074)"
proof -
  have "binade x = - 1022" using assms unfolding binade_def by simp
  then show ?thesis unfolding rnd_def Let_def by simp
qed

lemma rnd_pow2:
  assumes "- 1022 \<le> e"
  shows "rnd (pow2 e) = pow2 e"
proof -
  have "pow2 e < pow2 (e + 1)" by (rule pow2_less) simp
  then have r: "rnd (pow2 e) = of_int (round_even (pow2 e / pow2 (e - 52))) * pow2 (e - 52)"
    using assms by (intro rnd_eval) simp_all
  have "pow2 e = pow2 52 * pow2 (e - 52)" using pow2_add [of 52 "e - 52"] by simp
  then have d: "pow2 e / pow2 (e - 52) = pow2 52" by (simp add: field_simps)
  have p52: "pow2 52 = real_of_int (2 ^ 52)" unfolding pow2_def by simp
  have "round_even (pow2 52) = 2 ^ 52" unfolding p52 by (rule round_even_of_int)
  then have "real_of_int (round_even (pow2 e / pow2 (e - 52))) = pow2 52"
    unfolding d using p52 by simp
  then have "of_int (round_even (pow2 e / pow2 (e - 52))) * pow2 (e - 52) = pow2 52 * pow2 (e - 52)"
    by simp
  also have "\<dots> = pow2 e" using pow2_add [of 52 "e - 52"] by simp
  finally show ?thesis using r by simp
qed

subsection \<open>The sign of the heat loss\<close>





lemma round_to_zero [simp]: "round_to False 0 = Finite 0"
  by (simp add: round_to_def rnd_0 not_le)






subsection \<open>HeatConduction and HeatConvective\<close>







lemma round_to_pow2:
  assumes "- 1022 \<le> e" and "e < 1024"
  shows "round_to False (pow2 e) = Finite (pow2 e)"
proof -
  have "pow2 e < pow2 1024" using assms(2) by (rule pow2_less)
  then show ?thesis
    using rnd_pow2 [OF assms(1)] by (simp add: round_to_def not_le)
qed




lemma round_to_1: "round_to False 1 = Finite 1"
  using round_to_pow2 [of 0] by (simp add: pow2_def)


lemma round_to_half: "round_to False (1 / 2) = Finite (1 / 2)"
  using round_to_pow2 [of "- 1"] by (simp add: pow2_def)

text \<open>The inputs of the examples below are doubles.\<close>

lemma is_double_pow2: "- 1022 \<le> e \<Longrightarrow> e < 1024 \<Longrightarrow> is_double (Finite (pow2 e))"
  using rnd_pow2 [of e] pow2_less [of e 1024] by (simp add: is_double_def)

lemma is_double_0: "is_double (Finite 0)"
  by (simp add: is_double_def rnd_0)

lemma rnd_min_subnormal: "rnd (pow2 (- 1074)) = pow2 (- 1074)"
proof -
  have "pow2 (- 1074) < pow2 (- 1022)" by (rule pow2_less) simp
  then have "rnd (pow2 (- 1074)) =
      of_int (round_even (pow2 (- 1074) / pow2 (- 1074))) * pow2 (- 1074)"
    by (rule rnd_subnormal)
  moreover have "round_even 1 = 1" using round_even_of_int [of 1] by simp
  ultimately show ?thesis by simp
qed

lemma is_double_min_subnormal: "is_double (Finite (pow2 (- 1074)))"
  using rnd_min_subnormal pow2_less [of "- 1074" 1024] by (simp add: is_double_def)


lemma dmul_Finite:
  "0 \<le> x \<Longrightarrow> 0 \<le> y \<Longrightarrow> dmul (Finite x) (Finite y) = round_to False (x * y)"
  by (simp add: dmul_def)



















subsection \<open>HeatGeneration\<close>

















subsection \<open>Battery\<close>

text \<open>A literal in the range of the normal doubles denotes a positive finite double.\<close>

lemma rnd_normal:
  assumes "pow2 e \<le> x" and "x < pow2 (e + 1)" and "- 1022 \<le> e"
  shows "0 < rnd x" and "rnd x \<le> pow2 (e + 1)"
proof -
  define q where "q = pow2 (e - 52)"
  have q: "0 < q" unfolding q_def by simp
  have r: "rnd x = of_int (round_even (x / q)) * q"
    unfolding q_def using assms by (rule rnd_eval)
  have "e = 52 + (e - 52)" by simp
  then have "pow2 e = pow2 (52 + (e - 52))" by (rule arg_cong)
  also have "\<dots> = pow2 52 * q" unfolding q_def by (rule pow2_add)
  finally have l: "pow2 52 \<le> x / q" using assms(1) q by (simp add: field_simps)
  have "e + 1 = 53 + (e - 52)" by simp
  then have "pow2 (e + 1) = pow2 (53 + (e - 52))" by (rule arg_cong)
  also have "\<dots> = pow2 53 * q" unfolding q_def by (rule pow2_add)
  finally have e1: "pow2 (e + 1) = pow2 53 * q" .
  then have u: "x / q < pow2 53" using assms(2) q by (simp add: field_simps)
  have p52: "pow2 52 = of_int (2 ^ 52)" and p53: "pow2 53 = of_int (2 ^ 53)"
    by (simp_all add: pow2_def)
  have fl: "2 ^ 52 \<le> \<lfloor>x / q\<rfloor>" using l unfolding p52 by (simp add: le_floor_iff)
  have fu: "\<lfloor>x / q\<rfloor> < 2 ^ 53" using u unfolding p53 by (simp add: floor_less_iff)
  from round_even_cases [of "x / q"] fl fu
  have n: "2 ^ 52 \<le> round_even (x / q)" "round_even (x / q) \<le> 2 ^ 53" by linarith+
  from n(1) have "0 < real_of_int (round_even (x / q))" by simp
  then show "0 < rnd x" unfolding r using q by simp
  from n(2) have "real_of_int (round_even (x / q)) \<le> of_int (2 ^ 53)" by (rule of_int_le_iff [THEN iffD2])
  then have "real_of_int (round_even (x / q)) * q \<le> pow2 53 * q"
    unfolding p53 using q by (intro mult_right_mono) simp_all
  then show "rnd x \<le> pow2 (e + 1)"
    unfolding r e1 .
qed

lemma dlit_pos:
  assumes "pow2 e \<le> x" and "x < pow2 (e + 1)" and "- 1022 \<le> e" and "e < 1023"
  shows "\<exists>y. dlit x = Finite y \<and> 0 < y"
proof -
  have x: "0 < x" using assms(1) pow2_pos [of e] by linarith
  have p: "0 < rnd x" and u: "rnd x \<le> pow2 (e + 1)" using assms(1-3) by (rule rnd_normal)+
  have "pow2 (e + 1) < pow2 1024" using assms(4) by (intro pow2_less) simp
  with u have "rnd x < pow2 1024" by linarith
  with p have "round_to False x = Finite (rnd x)" by (simp add: round_to_def Let_def not_le)
  with x p show ?thesis by (simp add: dlit_def)
qed

lemma dlit_0_9069: "\<exists>y. dlit 0.9069 = Finite y \<and> 0 < y"
  by (rule dlit_pos [where e = "- 1"]) (simp_all add: pow2_def)

lemma dlit_12_95: "\<exists>y. dlit 12.95 = Finite y \<and> 0 < y"
  by (rule dlit_pos [where e = 3]) (simp_all add: pow2_def)


lemma zero_dmul: "0 < y \<Longrightarrow> dmul (Finite 0) (Finite y) = Finite 0"
  by (simp add: dmul_def)

lemma zero_ddiv: "0 < y \<Longrightarrow> ddiv (Finite 0) (Finite y) = Finite 0"
  by (simp add: ddiv_def)






text \<open>Products and quotients with an infinity, a zero or \<open>NaN\<close>.\<close>

lemma dmul_PInf:
  "0 < x \<Longrightarrow> dmul (Finite x) PInf = PInf"
  "0 < x \<Longrightarrow> dmul PInf (Finite x) = PInf"
  by (simp_all add: dmul_def signed_inf_def)

lemma ddiv_PInf: "0 < x \<Longrightarrow> ddiv (Finite x) PInf = Finite 0"
  by (simp add: ddiv_def signed_zero_def)

lemma ddiv_by_zero: "0 < x \<Longrightarrow> ddiv (Finite x) (Finite 0) = PInf"
  by (simp add: ddiv_def signed_inf_def)

lemma ddiv_zero_zero: "ddiv (Finite 0) (Finite 0) = NaN"
  by (simp add: ddiv_def)

lemma dmul_NaN: "dmul NaN b = NaN"
  by (simp add: dmul_def)

lemma dmul_zero_zero: "dmul (Finite 0) (Finite 0) = Finite 0"
  by (simp add: dmul_def)





text \<open>
  An invalid input that is accepted: with a time of flight of zero (and a discharge
  limit of \<open>1 / 2\<close>, a cell capacity of \<open>2\<close>, a flat discharge curve at 4 V) the run
  with numpy scalars returns zero cells and an output voltage of \<open>NaN\<close>; with plain
  floats line 199 divides by zero.
\<close>

lemma solve_nonlinear_zero_time:
  "solve_nonlinear True (\<lambda>_. Finite 4) (\<lambda>_ _ _. (Finite 0, Finite 0))
     (Battery_init_params\<lparr>time_of_flight := Finite 0, q_l := Finite (1 / 2), q_n := Finite 2\<rparr>)
     Battery_init_unknowns =
   Inr \<lparr>n_cells = Finite 0, output_voltage = NaN, battery_mass = Finite 0,
        battery_volume = Finite 0, battery_cost = Finite 0, battery_length = Finite 0\<rparr>"
  "solve_nonlinear False (\<lambda>_. Finite 4) (\<lambda>_ _ _. (Finite 0, Finite 0))
     (Battery_init_params\<lparr>time_of_flight := Finite 0, q_l := Finite (1 / 2), q_n := Finite 2\<rparr>)
     Battery_init_unknowns =
   Inl ZeroDivisionError"
proof -
  obtain y where "dlit 0.9069 = Finite y" and y: "0 < y" using dlit_0_9069 by blast
  then have y': "dlit (9069 / 10000) = Finite y" by simp
  obtain c where "dlit 12.95 = Finite c" and c: "0 < c" using dlit_12_95 by blast
  then have c': "dlit (259 / 20) = Finite c" by simp
  have d: "dsub (Finite 1) (Finite (1 / 2)) = Finite (1 / 2)"
    by (simp add: dsub_def dadd_def round_to_half)
  have m: "dmul (Finite 2) (Finite (1 / 2)) = Finite 1"
    by (simp add: dmul_Finite round_to_1)
  show "solve_nonlinear True (\<lambda>_. Finite 4) (\<lambda>_ _ _. (Finite 0, Finite 0))
     (Battery_init_params\<lparr>time_of_flight := Finite 0, q_l := Finite (1 / 2), q_n := Finite 2\<rparr>)
     Battery_init_unknowns =
   Inr \<lparr>n_cells = Finite 0, output_voltage = NaN, battery_mass = Finite 0,
        battery_volume = Finite 0, battery_cost = Finite 0, battery_length = Finite 0\<rparr>"
    by (simp add: solve_nonlinear_def check_rep_def pdiv_def Let_def
        calculate_total_discharge_def Battery_init_params_def Battery_init_unknowns_def
        d m y y' c c' zero_dmul zero_ddiv dmul_PInf ddiv_PInf ddiv_by_zero ddiv_zero_zero
        dmul_NaN dmul_zero_zero signed_zero_def)
  show "solve_nonlinear False (\<lambda>_. Finite 4) (\<lambda>_ _ _. (Finite 0, Finite 0))
     (Battery_init_params\<lparr>time_of_flight := Finite 0, q_l := Finite (1 / 2), q_n := Finite 2\<rparr>)
     Battery_init_unknowns =
   Inl ZeroDivisionError"
    by (simp add: solve_nonlinear_def check_rep_def pdiv_def Let_def
        calculate_total_discharge_def Battery_init_params_def Battery_init_unknowns_def
        d m zero_dmul zero_ddiv)
qed







subsection \<open>FrictionCoefficient: the options that are read but never declared\<close>

text \<open>
  Assigning the keyword arguments neither adds nor removes a name: a name is declared
  after the constructor exactly when \<open>initialize\<close> declared it.
\<close>

lemma update_declared: "update d kwargs = Inr d' \<Longrightarrow> (d' k = None) = (d k = None)"
proof (induction kwargs arbitrary: d)
  case Nil
  then show ?case by simp
next
  case (Cons a kwargs)
  obtain name v where a: "a = (name, v)" by (cases a)
  show ?case
  proof (cases "d name")
    case None
    with Cons.prems a show ?thesis by simp
  next
    case (Some w)
    with Cons.prems a have "update (d(name \<mapsto> v)) kwargs = Inr d'" by simp
    then have "(d' k = None) = ((d(name \<mapsto> v)) k = None)" by (rule Cons.IH)
    with Some show ?thesis by (cases "k = name") simp_all
  qed
qed

lemma FrictionCoefficient_initialize_undeclared:
  "FrictionCoefficient_initialize ''MultiplicationFactorFrictionTempertature'' = None"
  "FrictionCoefficient_initialize ''ParametricFactorFrictionTempertature'' = None"
  by (simp_all add: FrictionCoefficient_initialize_def declare_item_def)

lemma FrictionCoefficient_initialize_declared:
  "FrictionCoefficient_initialize ''SteadyStateFrictionCoefficient'' \<noteq> None"
  "FrictionCoefficient_initialize ''MultiplicationFactorSpeed'' \<noteq> None"
  by (simp_all add: FrictionCoefficient_initialize_def declare_item_def)

lemma FrictionCoefficient_compute_undeclared:
  assumes "options ''SteadyStateFrictionCoefficient'' = Some a"
    and "options ''MultiplicationFactorSpeed'' = Some b"
    and "options ''MultiplicationFactorFrictionTempertature'' = None"
  shows "FrictionCoefficient_compute options inputs outputs =
           Inl (KeyError ''MultiplicationFactorFrictionTempertature'')"
  using assms by (simp add: FrictionCoefficient_compute_def)

text \<open>
  What lines 73 to 77 of \<open>compute\<close> would store if the six names it reads were all
  declared: the friction formula. No component built by the constructor is in this case.
\<close>

lemma FrictionCoefficient_compute_if_declared:
  assumes "options ''SteadyStateFrictionCoefficient'' = Some mu0"
    and "options ''MultiplicationFactorSpeed'' = Some n_v"
    and "options ''MultiplicationFactorFrictionTempertature'' = Some n_t"
    and "options ''ParametricFactorSpeed'' = Some m_v"
    and "options ''ParametricFactorFrictionTempertature'' = Some m_t"
    and "options ''OriginalTemperature'' = Some T0"
    and "inputs ''SurfaceVelocity'' = Some v"
    and "inputs ''Temperature'' = Some T"
    and "outputs ''FrictionCoefficient'' = Some old"
  shows "FrictionCoefficient_compute options inputs outputs =
           Inr (outputs(''FrictionCoefficient'' \<mapsto>
             mu0 * (1 + n_v * exp (- (m_v * v))) * (1 + n_t * exp (- (m_t * (T - T0))))))"
  using assms by (simp add: FrictionCoefficient_compute_def Let_def)

text \<open>
  C2. Whatever keyword arguments the component was built with and whatever the inputs
  are, \<open>FrictionCoefficient.compute\<close> raises \<open>KeyError\<close> at its third lookup: the
  names \<open>MultiplicationFactorFrictionTempertature\<close> and
  \<open>ParametricFactorFrictionTempertature\<close> are not declared, so no output is stored.
\<close>

theorem FrictionCoefficient_compute_raises:
  assumes "FrictionCoefficient_init kwargs = Inr options"
  shows "options ''MultiplicationFactorFrictionTempertature'' = None \<and>
         options ''ParametricFactorFrictionTempertature'' = None \<and>
         FrictionCoefficient_compute options inputs outputs =
           Inl (KeyError ''MultiplicationFactorFrictionTempertature'')"
proof -
  have u: "update FrictionCoefficient_initialize kwargs = Inr options"
    using assms by (simp add: FrictionCoefficient_init_def)
  have n1: "options ''MultiplicationFactorFrictionTempertature'' = None"
    using update_declared [OF u] FrictionCoefficient_initialize_undeclared(1) by simp
  have n2: "options ''ParametricFactorFrictionTempertature'' = None"
    using update_declared [OF u] FrictionCoefficient_initialize_undeclared(2) by simp
  have "options ''SteadyStateFrictionCoefficient'' \<noteq> None"
    using update_declared [OF u] FrictionCoefficient_initialize_declared(1) by simp
  then obtain a where a: "options ''SteadyStateFrictionCoefficient'' = Some a"
    by blast
  have "options ''MultiplicationFactorSpeed'' \<noteq> None"
    using update_declared [OF u] FrictionCoefficient_initialize_declared(2) by simp
  then obtain b where b: "options ''MultiplicationFactorSpeed'' = Some b"
    by blast
  from a b n1 have "FrictionCoefficient_compute options inputs outputs =
           Inl (KeyError ''MultiplicationFactorFrictionTempertature'')"
    by (rule FrictionCoefficient_compute_undeclared)
  with n1 n2 show ?thesis by simp
qed

lemma FrictionCoefficient_init_example:
  "FrictionCoefficient_init [(''SteadyStateFrictionCoefficient'', 4 / 10)] =
     Inr (FrictionCoefficient_initialize(''SteadyStateFrictionCoefficient'' \<mapsto> 4 / 10))"
  by (simp add: FrictionCoefficient_init_def FrictionCoefficient_initialize_def declare_item_def)

theorem FrictionCoefficient_compute_raises_witness:
  "FrictionCoefficient_compute
     (FrictionCoefficient_initialize(''SteadyStateFrictionCoefficient'' \<mapsto> 4 / 10))
     FrictionCoefficient_setup_inputs FrictionCoefficient_setup_outputs =
     Inl (KeyError ''MultiplicationFactorFrictionTempertature'')"
  using FrictionCoefficient_compute_raises [OF FrictionCoefficient_init_example]
  by (rule conjunct2 [OF conjunct2])

text \<open>
  C1. The claim is that \<open>compute\<close> stores the friction formula, which at \<open>v = 0\<close>
  and \<open>T = T0\<close> is \<open>mu0 * (1 + n_v) * (1 + n_t)\<close>. With the default options
  (\<open>mu0 = n_v = n_t = T0 = 1\<close>, so the claimed output is 4) and the inputs \<open>v = 0\<close>,
  \<open>T = 1\<close> the run ends in \<open>KeyError\<close> and stores nothing.
\<close>

theorem FrictionCoefficient_compute_at_rest:
  "FrictionCoefficient_compute FrictionCoefficient_initialize
     (FrictionCoefficient_setup_inputs(''SurfaceVelocity'' \<mapsto> 0, ''Temperature'' \<mapsto> 1))
     FrictionCoefficient_setup_outputs =
     Inl (KeyError ''MultiplicationFactorFrictionTempertature'')"
  by (rule FrictionCoefficient_compute_undeclared [where a = 1 and b = 1])
     (simp_all add: FrictionCoefficient_initialize_def declare_item_def)

text \<open>
  C9. The claim is that the computed coefficient decreases strictly with the surface
  velocity. With the default options (\<open>n_v = m_v = 1\<close>) the runs at \<open>v = 0\<close> and at
  \<open>v = 1\<close> both end in \<open>KeyError\<close>: there are no two outputs to compare.
\<close>

theorem FrictionCoefficient_compute_two_speeds:
  "FrictionCoefficient_compute FrictionCoefficient_initialize
     (FrictionCoefficient_setup_inputs(''SurfaceVelocity'' \<mapsto> 0))
     FrictionCoefficient_setup_outputs =
     Inl (KeyError ''MultiplicationFactorFrictionTempertature'') \<and>
   FrictionCoefficient_compute FrictionCoefficient_initialize
     (FrictionCoefficient_setup_inputs(''SurfaceVelocity'' \<mapsto> 1))
     FrictionCoefficient_setup_outputs =
     Inl (KeyError ''MultiplicationFactorFrictionTempertature'')"
proof -
  have a: "FrictionCoefficient_initialize ''SteadyStateFrictionCoefficient'' = Some 1"
    and b: "FrictionCoefficient_initialize ''MultiplicationFactorSpeed'' = Some 1"
    by (simp_all add: FrictionCoefficient_initialize_def declare_item_def)
  show ?thesis
    using FrictionCoefficient_compute_undeclared
            [OF a b FrictionCoefficient_initialize_undeclared(1)]
    by simp
qed

end
